theory Spec2Isabelle
  imports Complex_Main "HOL-Library.Log_Nat"
begin

section \<open>Python values and exceptions\<close>

text \<open>
  The values that reach \<^verbatim>\<open>generate_invoice_pdf\<close> are JSON-like Python objects: what
  \<^verbatim>\<open>json.loads\<close> returns, or a dictionary built by the caller.  A Python \<^verbatim>\<open>float\<close> is an
  IEEE 754 binary64 number: a finite value is kept as the rational it denotes, the two
  zeros, the infinities and NaN are separate constructors (\<open>Fin 0\<close> is \<open>+0.0\<close>).
  A dictionary is an association list with distinct keys, in insertion order.
  Strings are byte strings: ASCII text, other code points in UTF-8.
\<close>

datatype pyfloat = Fin rat | NegZero | PosInf | NegInf | NaN

datatype pyval =
    PNone
  | PBool bool
  | PInt int
  | PFloat pyfloat
  | PStr string
  | PList "pyval list"
  | PDict "(string \<times> pyval) list"

datatype error =
    ValueError string
  | TypeError
  | AttributeError
  | IndexError
  | OverflowError
  | OtherError string

text \<open>\<^verbatim>\<open>d.get(k, default)\<close>\<close>

definition dict_get :: "(string \<times> pyval) list \<Rightarrow> string \<Rightarrow> pyval \<Rightarrow> pyval" where
  "dict_get d k dflt = (case map_of d k of None \<Rightarrow> dflt | Some v \<Rightarrow> v)"

text \<open>\<^verbatim>\<open>d[k] = v\<close>: an existing key keeps its position.\<close>

fun dict_set :: "string \<Rightarrow> pyval \<Rightarrow> (string \<times> pyval) list \<Rightarrow> (string \<times> pyval) list" where
  "dict_set k v [] = [(k, v)]"
| "dict_set k v (p # d) = (if fst p = k then (k, v) # d else p # dict_set k v d)"

section \<open>String methods\<close>

text \<open>\<^verbatim>\<open>s.strip(chars)\<close> removes, at both ends, every character that occurs in \<open>chars\<close>.\<close>

definition str_strip :: "string \<Rightarrow> string \<Rightarrow> string" where
  "str_strip s chars =
     rev (dropWhile (\<lambda>c. c \<in> set chars) (rev (dropWhile (\<lambda>c. c \<in> set chars) s)))"

text \<open>\<^verbatim>\<open>s.replace("$", "")\<close>\<close>

definition str_replace_dollar :: "string \<Rightarrow> string" where
  "str_replace_dollar s = filter (\<lambda>c. c \<noteq> CHR ''$'') s"

definition is_space :: "char \<Rightarrow> bool" where
  "is_space c = (c \<in> set [CHR 0x09, CHR 0x0A, CHR 0x0B, CHR 0x0C, CHR 0x0D, CHR '' ''])"

definition strip_space :: "string \<Rightarrow> string" where
  "strip_space s = rev (dropWhile is_space (rev (dropWhile is_space s)))"

definition is_digit :: "char \<Rightarrow> bool" where
  "is_digit c = (c \<in> set ''0123456789'')"

definition digit_val :: "char \<Rightarrow> int" where
  "digit_val c =
     (case map_of (zip ''0123456789'' [0, 1, 2, 3, 4, 5, 6, 7, 8, 9]) c of
        None \<Rightarrow> 0
      | Some v \<Rightarrow> v)"

definition digit_char :: "int \<Rightarrow> char" where
  "digit_char n =
     (case map_of (zip [0, 1, 2, 3, 4, 5, 6, 7, 8, 9] ''0123456789'') n of
        None \<Rightarrow> CHR ''0''
      | Some c \<Rightarrow> c)"

definition int_of_digits :: "string \<Rightarrow> int" where
  "int_of_digits ds = foldl (\<lambda>a c. 10 * a + digit_val c) 0 ds"

text \<open>The decimal digits of a number that is not negative.\<close>

function digits_of_int :: "int \<Rightarrow> string" where
  "digits_of_int n =
     (if n < 10 then [digit_char n] else digits_of_int (n div 10) @ [digit_char (n mod 10)])"
  by pat_completeness auto
termination
  by (relation "measure nat") auto

declare digits_of_int.simps [simp del]

definition to_lower :: "char \<Rightarrow> char" where
  "to_lower c =
     (case map_of (zip ''ABCDEFGHIJKLMNOPQRSTUVWXYZ'' ''abcdefghijklmnopqrstuvwxyz'') c of
        None \<Rightarrow> c
      | Some l \<Rightarrow> l)"

section \<open>The builtins \<^verbatim>\<open>int\<close> and \<^verbatim>\<open>float\<close> on strings\<close>

text \<open>
  \<^verbatim>\<open>int(s)\<close> in base 10: surrounding white space is dropped, then an optional sign and
  decimal digits, where single underscores may stand between digits.  \<open>None\<close> is the
  \<^verbatim>\<open>ValueError\<close> of the builtin.
\<close>

fun digit_run :: "string \<Rightarrow> string option" where
  "digit_run [] = None"
| "digit_run [c] = (if is_digit c then Some [c] else None)"
| "digit_run (c # d # cs) =
     (if is_digit c
      then (if d = CHR ''_'' then map_option ((#) c) (digit_run cs)
            else map_option ((#) c) (digit_run (d # cs)))
      else None)"

definition int_of_str :: "string \<Rightarrow> int option" where
  "int_of_str s =
     (case strip_space s of
        [] \<Rightarrow> None
      | c # cs \<Rightarrow>
          if c = CHR ''-'' then map_option (\<lambda>ds. - int_of_digits ds) (digit_run cs)
          else if c = CHR ''+'' then map_option int_of_digits (digit_run cs)
          else map_option int_of_digits (digit_run (c # cs)))"

text \<open>Rounding to the nearest integer, ties to even.\<close>

definition round_half_even :: "rat \<Rightarrow> int" where
  "round_half_even x =
     (let f = \<lfloor>x\<rfloor>; d = x - of_int f
      in if d < 1 / 2 then f else if 1 / 2 < d then f + 1 else if even f then f else f + 1)"

definition floor_log2 :: "rat \<Rightarrow> int" where
  "floor_log2 a =
     (let (p, q) = quotient_of a; d = bitlen p - bitlen q
      in if 2 powi d \<le> a then d else d - 1)"

text \<open>
  The binary64 number nearest to a rational (ties to even): \<open>m\<close> is the significand
  of at most 53 bits at the exponent \<open>e\<close> of the argument, with gradual underflow
  below \<open>2 powi (-1022)\<close>; a result of \<open>2 ^ 1024\<close> or more is an infinity.
\<close>

definition round_double :: "rat \<Rightarrow> pyfloat" where
  "round_double x =
     (if x = 0 then Fin 0
      else
        let a = \<bar>x\<bar>;
            e = max (floor_log2 a) (- 1022);
            u = 2 powi (e - 52);
            m = round_half_even (a / u)
        in if 1023 < e \<or> (e = 1023 \<and> m = 2 ^ 53) then (if 0 < x then PosInf else NegInf)
           else if m = 0 then (if 0 < x then Fin 0 else NegZero)
           else Fin (if 0 < x then of_int m * u else - (of_int m * u)))"

text \<open>
  \<^verbatim>\<open>float(s)\<close>: white space is dropped at both ends, underscores are accepted between
  digits only, then come an optional sign and either \<^verbatim>\<open>inf\<close>, \<^verbatim>\<open>infinity\<close>, \<^verbatim>\<open>nan\<close> in any
  case, or a decimal numeral with an optional exponent.  The numeral is rounded
  correctly.  \<open>None\<close> is the \<^verbatim>\<open>ValueError\<close> of the builtin.
\<close>

fun drop_underscores :: "char \<Rightarrow> string \<Rightarrow> string option" where
  "drop_underscores prev [] = (if prev = CHR ''_'' then None else Some [])"
| "drop_underscores prev (c # cs) =
     (if c = CHR ''_''
      then (if is_digit prev then drop_underscores c cs else None)
      else (if prev = CHR ''_'' \<and> \<not> is_digit c then None
            else map_option ((#) c) (drop_underscores c cs)))"

definition parse_exponent :: "string \<Rightarrow> int option" where
  "parse_exponent s =
     (case s of
        [] \<Rightarrow> Some 0
      | c # cs \<Rightarrow>
          if c = CHR ''e'' \<or> c = CHR ''E'' then
            (case cs of
               [] \<Rightarrow> None
             | d # ds \<Rightarrow>
                 if d = CHR ''-'' then
                   (if ds \<noteq> [] \<and> list_all is_digit ds then Some (- int_of_digits ds) else None)
                 else if d = CHR ''+'' then
                   (if ds \<noteq> [] \<and> list_all is_digit ds then Some (int_of_digits ds) else None)
                 else
                   (if list_all is_digit cs then Some (int_of_digits cs) else None))
          else None)"

definition parse_decimal :: "string \<Rightarrow> rat option" where
  "parse_decimal s =
     (let ip = takeWhile is_digit s; r1 = dropWhile is_digit s;
          (fp, r2) = (case r1 of
                        [] \<Rightarrow> ([], r1)
                      | c # cs \<Rightarrow>
                          if c = CHR ''.'' then (takeWhile is_digit cs, dropWhile is_digit cs)
                          else ([], r1))
      in if ip = [] \<and> fp = [] then None
         else (case parse_exponent r2 of
                 None \<Rightarrow> None
               | Some ex \<Rightarrow>
                   Some (of_int (int_of_digits (ip @ fp)) * 10 powi (ex - int (length fp)))))"

definition float_of_body :: "bool \<Rightarrow> string \<Rightarrow> pyfloat option" where
  "float_of_body neg b =
     (if map to_lower b = ''inf'' \<or> map to_lower b = ''infinity''
      then Some (if neg then NegInf else PosInf)
      else if map to_lower b = ''nan'' then Some NaN
      else (case parse_decimal b of
              None \<Rightarrow> None
            | Some q \<Rightarrow>
                Some (if q = 0 then (if neg then NegZero else Fin 0)
                      else round_double (if neg then - q else q))))"

definition float_of_str :: "string \<Rightarrow> pyfloat option" where
  "float_of_str s =
     (case drop_underscores (CHR 0x00) (strip_space s) of
        None \<Rightarrow> None
      | Some [] \<Rightarrow> None
      | Some (c # cs) \<Rightarrow>
          if c = CHR ''-'' then float_of_body True cs
          else if c = CHR ''+'' then float_of_body False cs
          else float_of_body False (c # cs))"

text \<open>
  \<^verbatim>\<open>int(x)\<close> on any value.  A float is truncated towards zero; NaN gives a
  \<^verbatim>\<open>ValueError\<close>, an infinity an \<^verbatim>\<open>OverflowError\<close>, \<^verbatim>\<open>None\<close> and containers a \<^verbatim>\<open>TypeError\<close>.
\<close>

fun py_int :: "pyval \<Rightarrow> error + int" where
  "py_int PNone = Inl TypeError"
| "py_int (PBool b) = Inr (if b then 1 else 0)"
| "py_int (PInt n) = Inr n"
| "py_int (PFloat (Fin r)) = Inr (if 0 \<le> r then \<lfloor>r\<rfloor> else \<lceil>r\<rceil>)"
| "py_int (PFloat NegZero) = Inr 0"
| "py_int (PFloat NaN) = Inl (ValueError ''cannot convert float NaN to integer'')"
| "py_int (PFloat PosInf) = Inl OverflowError"
| "py_int (PFloat NegInf) = Inl OverflowError"
| "py_int (PStr s) =
     (case int_of_str s of
        None \<Rightarrow> Inl (ValueError ''invalid literal for int() with base 10'')
      | Some n \<Rightarrow> Inr n)"
| "py_int (PList xs) = Inl TypeError"
| "py_int (PDict d) = Inl TypeError"

section \<open>Float arithmetic and formatting\<close>

text \<open>An \<^verbatim>\<open>int\<close> operand of a float operation is converted first; too large a one raises.\<close>

definition float_of_int :: "int \<Rightarrow> error + pyfloat" where
  "float_of_int n =
     (case round_double (of_int n) of
        PosInf \<Rightarrow> Inl OverflowError
      | NegInf \<Rightarrow> Inl OverflowError
      | Fin r \<Rightarrow> Inr (Fin r)
      | NegZero \<Rightarrow> Inr NegZero
      | NaN \<Rightarrow> Inr NaN)"

fun is_negative :: "pyfloat \<Rightarrow> bool" where
  "is_negative (Fin r) = (r < 0)"
| "is_negative NegZero = True"
| "is_negative NegInf = True"
| "is_negative PosInf = False"
| "is_negative NaN = False"

fun is_zero :: "pyfloat \<Rightarrow> bool" where
  "is_zero (Fin r) = (r = 0)"
| "is_zero NegZero = True"
| "is_zero PosInf = False"
| "is_zero NegInf = False"
| "is_zero NaN = False"

fun is_inf :: "pyfloat \<Rightarrow> bool" where
  "is_inf PosInf = True"
| "is_inf NegInf = True"
| "is_inf (Fin r) = False"
| "is_inf NegZero = False"
| "is_inf NaN = False"

fun rat_of :: "pyfloat \<Rightarrow> rat" where
  "rat_of (Fin r) = r"
| "rat_of NegZero = 0"
| "rat_of PosInf = 0"
| "rat_of NegInf = 0"
| "rat_of NaN = 0"

definition float_mul :: "pyfloat \<Rightarrow> pyfloat \<Rightarrow> pyfloat" where
  "float_mul a b =
     (let neg = (is_negative a \<noteq> is_negative b)
      in if a = NaN \<or> b = NaN then NaN
         else if is_inf a \<or> is_inf b then
           (if is_zero a \<or> is_zero b then NaN else if neg then NegInf else PosInf)
         else if is_zero a \<or> is_zero b then (if neg then NegZero else Fin 0)
         else round_double (rat_of a * rat_of b))"

definition float_add :: "pyfloat \<Rightarrow> pyfloat \<Rightarrow> pyfloat" where
  "float_add a b =
     (if a = NaN \<or> b = NaN then NaN
      else if is_inf a then (if is_inf b \<and> a \<noteq> b then NaN else a)
      else if is_inf b then b
      else if is_zero a \<and> is_zero b then (if a = NegZero \<and> b = NegZero then NegZero else Fin 0)
      else round_double (rat_of a + rat_of b))"

text \<open>
  \<^verbatim>\<open>f"{x:.2f}"\<close>: the exact binary value, rounded to two decimals with ties to even.
\<close>

fun format_2f :: "pyfloat \<Rightarrow> string" where
  "format_2f (Fin r) =
     (let n = round_half_even (\<bar>r\<bar> * 100)
      in (if r < 0 then ''-'' else []) @ digits_of_int (n div 100) @ ''.''
           @ [digit_char (n mod 100 div 10), digit_char (n mod 10)])"
| "format_2f NegZero = ''-0.00''"
| "format_2f PosInf = ''inf''"
| "format_2f NegInf = ''-inf''"
| "format_2f NaN = ''nan''"

declare format_2f.simps(1) [simp del]

text \<open>
  The builtin \<^verbatim>\<open>sum\<close> over floats, started at the integer 0: the items are added from
  left to right.
\<close>

definition py_sum :: "pyfloat list \<Rightarrow> pyfloat" where
  "py_sum xs = foldl float_add (Fin 0) xs"

section \<open>The decoder \<^verbatim>\<open>json.loads\<close>\<close>

text \<open>
  The standard decoder, as a scanner over the rest of the text.  \<open>Reject\<close> is its
  \<^verbatim>\<open>JSONDecodeError\<close>.  The recursion of the scanner is bounded by a counter that
  \<open>json_loads\<close> sets from the length of the text.
\<close>

datatype 'a scan = Scanned 'a string | Reject | NoFuel

definition is_json_ws :: "char \<Rightarrow> bool" where
  "is_json_ws c = (c \<in> set [CHR '' '', CHR 0x09, CHR 0x0A, CHR 0x0D])"

definition skip_ws :: "string \<Rightarrow> string" where
  "skip_ws s = dropWhile is_json_ws s"

definition is_hex :: "char \<Rightarrow> bool" where
  "is_hex c = (c \<in> set ''0123456789abcdefABCDEF'')"

definition hex_val :: "char \<Rightarrow> nat" where
  "hex_val c =
     (if is_digit c then of_char c - 48
      else if (of_char c :: nat) < 97 then of_char c - 55 else of_char c - 87)"

definition decode_u4 :: "string \<Rightarrow> nat option" where
  "decode_u4 s =
     (case take 4 s of
        [a, b, c, d] \<Rightarrow>
          if is_hex a \<and> is_hex b \<and> is_hex c \<and> is_hex d
          then Some (((hex_val a * 16 + hex_val b) * 16 + hex_val c) * 16 + hex_val d)
          else None
      | _ \<Rightarrow> None)"

definition utf8_encode :: "nat \<Rightarrow> string" where
  "utf8_encode n =
     (if n < 0x80 then [char_of n]
      else if n < 0x800 then [char_of (0xC0 + n div 64), char_of (0x80 + n mod 64)]
      else if n < 0x10000 then
        [char_of (0xE0 + n div 4096), char_of (0x80 + n div 64 mod 64), char_of (0x80 + n mod 64)]
      else
        [char_of (0xF0 + n div 262144), char_of (0x80 + n div 4096 mod 64),
         char_of (0x80 + n div 64 mod 64), char_of (0x80 + n mod 64)])"

definition unescape :: "char \<Rightarrow> char option" where
  "unescape e =
     (if e = CHR 0x22 then Some (CHR 0x22)
      else if e = CHR 0x5C then Some (CHR 0x5C)
      else if e = CHR ''/'' then Some (CHR ''/'')
      else if e = CHR ''b'' then Some (CHR 0x08)
      else if e = CHR ''f'' then Some (CHR 0x0C)
      else if e = CHR ''n'' then Some (CHR 0x0A)
      else if e = CHR ''r'' then Some (CHR 0x0D)
      else if e = CHR ''t'' then Some (CHR 0x09)
      else None)"

text \<open>
  The body of a string literal, from behind its opening quote: the decoded string and
  the text behind the closing quote.
\<close>

fun scanstring :: "string \<Rightarrow> (string \<times> string) option" where
  "scanstring [] = None"
| "scanstring (c # cs) =
     (if c = CHR 0x22 then Some ([], cs)
      else if c = CHR 0x5C then
        (case cs of
           [] \<Rightarrow> None
         | e # es \<Rightarrow>
             if e = CHR ''u'' then
               (case decode_u4 es of
                  None \<Rightarrow> None
                | Some u \<Rightarrow>
                    if 0xD800 \<le> u \<and> u \<le> 0xDBFF \<and> take 2 (drop 4 es) = [CHR 0x5C, CHR ''u''] then
                      (case decode_u4 (drop 6 es) of
                         None \<Rightarrow> None
                       | Some u2 \<Rightarrow>
                           if 0xDC00 \<le> u2 \<and> u2 \<le> 0xDFFF then
                             map_option
                               (apfst ((@) (utf8_encode (0x10000 + (u - 0xD800) * 1024 + (u2 - 0xDC00)))))
                               (scanstring (drop 10 es))
                           else
                             map_option (apfst ((@) (utf8_encode u))) (scanstring (drop 4 es)))
                    else map_option (apfst ((@) (utf8_encode u))) (scanstring (drop 4 es)))
             else
               (case unescape e of
                  None \<Rightarrow> None
                | Some ch \<Rightarrow> map_option (apfst ((#) ch)) (scanstring es)))
      else if (of_char c :: nat) < 0x20 then None
      else map_option (apfst ((#) c)) (scanstring cs))"

text \<open>
  The number pattern \<^verbatim>\<open>(-?(?:0|[1-9]\d*))(\.\d+)?([eE][-+]?\d+)?\<close>, matched at the
  head of the text; an integer literal gives an \<^verbatim>\<open>int\<close>, any other a \<^verbatim>\<open>float\<close>.
\<close>

definition scan_number :: "string \<Rightarrow> (pyval \<times> string) option" where
  "scan_number s =
     (let (sign, s1) = (case s of
                          [] \<Rightarrow> ([], s)
                        | c # cs \<Rightarrow> if c = CHR ''-'' then (''-'', cs) else ([], s))
      in case s1 of
           [] \<Rightarrow> None
         | c # cs \<Rightarrow>
             if \<not> is_digit c then None
             else
               let ip = (if c = CHR ''0'' then [c] else takeWhile is_digit s1);
                   r1 = drop (length ip) s1;
                   fp = (case r1 of
                           [] \<Rightarrow> []
                         | d # ds \<Rightarrow>
                             if d = CHR ''.'' \<and> takeWhile is_digit ds \<noteq> []
                             then d # takeWhile is_digit ds else []);
                   r2 = drop (length fp) r1;
                   ex = (case r2 of
                           [] \<Rightarrow> []
                         | d # ds \<Rightarrow>
                             if d = CHR ''e'' \<or> d = CHR ''E'' then
                               (case ds of
                                  [] \<Rightarrow> []
                                | g # gs \<Rightarrow>
                                    if (g = CHR ''+'' \<or> g = CHR ''-'') \<and> takeWhile is_digit gs \<noteq> []
                                    then d # g # takeWhile is_digit gs
                                    else if takeWhile is_digit ds \<noteq> []
                                    then d # takeWhile is_digit ds else [])
                             else []);
                   r3 = drop (length ex) r2
               in if fp = [] \<and> ex = []
                  then map_option (\<lambda>n. (PInt n, r3)) (int_of_str (sign @ ip))
                  else map_option (\<lambda>f. (PFloat f, r3)) (float_of_str (sign @ ip @ fp @ ex)))"

fun scan_once :: "nat \<Rightarrow> string \<Rightarrow> pyval scan"
  and scan_array :: "nat \<Rightarrow> pyval list \<Rightarrow> string \<Rightarrow> pyval scan"
  and scan_object :: "nat \<Rightarrow> (string \<times> pyval) list \<Rightarrow> string \<Rightarrow> pyval scan"
where
  "scan_once 0 s = NoFuel"
| "scan_once (Suc n) s =
     (case s of
        [] \<Rightarrow> Reject
      | c # cs \<Rightarrow>
          if c = CHR 0x22 then
            (case scanstring cs of None \<Rightarrow> Reject | Some (str, r) \<Rightarrow> Scanned (PStr str) r)
          else if c = CHR ''{'' then
            (case skip_ws cs of
               [] \<Rightarrow> Reject
             | d # ds \<Rightarrow>
                 if d = CHR ''}'' then Scanned (PDict []) ds
                 else if d = CHR 0x22 then scan_object n [] ds
                 else Reject)
          else if c = CHR ''['' then
            (case skip_ws cs of
               [] \<Rightarrow> Reject
             | d # ds \<Rightarrow>
                 if d = CHR '']'' then Scanned (PList []) ds
                 else scan_array n [] (d # ds))
          else if take 4 s = ''null'' then Scanned PNone (drop 4 s)
          else if take 4 s = ''true'' then Scanned (PBool True) (drop 4 s)
          else if take 5 s = ''false'' then Scanned (PBool False) (drop 5 s)
          else
            (case scan_number s of
               Some (v, r) \<Rightarrow> Scanned v r
             | None \<Rightarrow>
                 if take 3 s = ''NaN'' then Scanned (PFloat NaN) (drop 3 s)
                 else if take 8 s = ''Infinity'' then Scanned (PFloat PosInf) (drop 8 s)
                 else if take 9 s = ''-Infinity'' then Scanned (PFloat NegInf) (drop 9 s)
                 else Reject))"
| "scan_array 0 acc s = NoFuel"
| "scan_array (Suc n) acc s =
     (case scan_once n s of
        Reject \<Rightarrow> Reject
      | NoFuel \<Rightarrow> NoFuel
      | Scanned v r \<Rightarrow>
          (case skip_ws r of
             [] \<Rightarrow> Reject
           | d # ds \<Rightarrow>
               if d = CHR '']'' then Scanned (PList (acc @ [v])) ds
               else if d = CHR '','' then scan_array n (acc @ [v]) (skip_ws ds)
               else Reject))"
| "scan_object 0 acc s = NoFuel"
| "scan_object (Suc n) acc s =
     (case scanstring s of
        None \<Rightarrow> Reject
      | Some (key, r) \<Rightarrow>
          (case skip_ws r of
             [] \<Rightarrow> Reject
           | d # ds \<Rightarrow>
               if d \<noteq> CHR '':'' then Reject
               else
                 (case scan_once n (skip_ws ds) of
                    Reject \<Rightarrow> Reject
                  | NoFuel \<Rightarrow> NoFuel
                  | Scanned v r2 \<Rightarrow>
                      (case skip_ws r2 of
                         [] \<Rightarrow> Reject
                       | e # es \<Rightarrow>
                           if e = CHR ''}'' then Scanned (PDict (dict_set key v acc)) es
                           else if e = CHR '','' then
                             (case skip_ws es of
                                [] \<Rightarrow> Reject
                              | q # qs \<Rightarrow>
                                  if q = CHR 0x22 then scan_object n (dict_set key v acc) qs
                                  else Reject)
                           else Reject))))"

definition json_loads :: "string \<Rightarrow> pyval option" where
  "json_loads s =
     (case scan_once (2 * length s + 2) (skip_ws s) of
        Scanned v r \<Rightarrow> if skip_ws r = [] then Some v else None
      | Reject \<Rightarrow> None
      | NoFuel \<Rightarrow> None)"

section \<open>Invoice generation (\<^verbatim>\<open>invoice.py\<close>)\<close>

text \<open>
  The canvas is the list of drawing calls made on it; \<^verbatim>\<open>c.save()\<close>, the last statement of
  \<^verbatim>\<open>generate_invoice_pdf\<close>, is the only one that writes the file.  The drawing calls
  themselves are taken not to fail.  Positions are whole numbers of points on the
  letter page (612 by 792).
\<close>

type_synonym row = "pyval list"

datatype draw =
    DrawImage string int int int int
  | SetFont string int
  | DrawString int int string
  | DrawTable int int "row list"

type_synonym files = "string \<Rightarrow> draw list option"

definition page_width :: int where
  "page_width = 612"

definition page_height :: int where
  "page_height = 792"

definition title_y_position :: int where
  "title_y_position = page_height - 50"

definition issued_to_y_position :: int where
  "issued_to_y_position = title_y_position - 60"

definition pay_to_y_position :: int where
  "pay_to_y_position = issued_to_y_position - 100"

definition page_header :: "draw list" where
  "page_header =
     [DrawImage ''bunker_logo.jpg'' (page_width - 100 - 20) (page_height - 50 - 20) 100 50,
      SetFont ''Helvetica-Bold'' 16,
      DrawString 200 title_y_position ''Orden de Servicio'',
      SetFont ''Helvetica'' 12,
      DrawString 50 (title_y_position - 30) ''Nombre de la empresa'',
      SetFont ''Helvetica-Bold'' 12,
      DrawString 50 issued_to_y_position ''Issued To:'',
      SetFont ''Helvetica'' 12,
      DrawString 50 (issued_to_y_position - 20) ''Nombre del Cliente: John Doe'',
      DrawString 50 (issued_to_y_position - 40)
        (''Direcci'' @ [CHR 0xC3, CHR 0xB3] @ ''n: 123 Main Street''),
      DrawString 50 (issued_to_y_position - 60)
        (''Tel'' @ [CHR 0xC3, CHR 0xA9] @ ''fono: +1 234 567 890''),
      SetFont ''Helvetica-Bold'' 12,
      DrawString 50 pay_to_y_position ''Pay To:'',
      SetFont ''Helvetica'' 12,
      DrawString 50 (pay_to_y_position - 20) ''Nombre de la Empresa: Bunker Inc.'',
      DrawString 50 (pay_to_y_position - 40)
        (''Direcci'' @ [CHR 0xC3, CHR 0xB3] @ ''n: 456 Business Road''),
      DrawString 50 (pay_to_y_position - 60)
        (''Tel'' @ [CHR 0xC3, CHR 0xA9] @ ''fono: +1 987 654 321'')]"

definition table_header :: row where
  "table_header = [PStr ''Producto'', PStr ''Cantidad'', PStr ''Precio'', PStr ''Total'']"

text \<open>
  \<^verbatim>\<open>try: cantidad = int(cantidad)  except ValueError: cantidad = 1\<close>; any other exception
  of \<^verbatim>\<open>int\<close> leaves the function.
\<close>

definition coerce_cantidad :: "pyval \<Rightarrow> error + int" where
  "coerce_cantidad v =
     (case py_int v of
        Inr n \<Rightarrow> Inr n
      | Inl e \<Rightarrow> (case e of ValueError m \<Rightarrow> Inr 1 | _ \<Rightarrow> Inl e))"

text \<open>\<^verbatim>\<open>try: costo = float(costo)  except ValueError: costo = 1.0\<close>\<close>

definition coerce_costo :: "string \<Rightarrow> pyfloat" where
  "coerce_costo s = (case float_of_str s of None \<Rightarrow> Fin 1 | Some f \<Rightarrow> f)"

text \<open>The body of the loop over \<^verbatim>\<open>productos\<close>: one product gives one row of the table.\<close>

definition product_row :: "pyval \<Rightarrow> error + row" where
  "product_row product =
     (case product of
        PDict d \<Rightarrow>
          (let nombre = dict_get d ''nombre'' (PStr []);
               cantidad = dict_get d ''cantidad'' (PInt 0)
           in case dict_get d ''costo'' (PStr ''0'') of
                PStr c \<Rightarrow>
                  (case coerce_cantidad cantidad of
                     Inl e \<Rightarrow> Inl e
                   | Inr q \<Rightarrow>
                       (let costo = coerce_costo (str_replace_dollar c)
                        in case float_of_int q of
                             Inl e \<Rightarrow> Inl e
                           | Inr qf \<Rightarrow>
                               Inr [nombre, PInt q, PStr (CHR ''$'' # format_2f costo),
                                    PStr (CHR ''$'' # format_2f (float_mul qf costo))]))
              | _ \<Rightarrow> Inl AttributeError)
      | _ \<Rightarrow> Inl AttributeError)"

fun table_rows :: "pyval list \<Rightarrow> error + row list" where
  "table_rows [] = Inr []"
| "table_rows (p # ps) =
     (case product_row p of
        Inl e \<Rightarrow> Inl e
      | Inr r \<Rightarrow> (case table_rows ps of Inl e \<Rightarrow> Inl e | Inr rs \<Rightarrow> Inr (r # rs)))"

text \<open>What \<^verbatim>\<open>for product in productos\<close> iterates over.\<close>

fun py_iter :: "pyval \<Rightarrow> error + pyval list" where
  "py_iter (PList xs) = Inr xs"
| "py_iter (PDict d) = Inr (map (\<lambda>p. PStr (fst p)) d)"
| "py_iter (PStr s) = Inr (map (\<lambda>c. PStr [c]) s)"
| "py_iter PNone = Inl TypeError"
| "py_iter (PBool b) = Inl TypeError"
| "py_iter (PInt n) = Inl TypeError"
| "py_iter (PFloat f) = Inl TypeError"

text \<open>\<^verbatim>\<open>float(row[3].replace("$", ""))\<close>\<close>

definition row_total :: "row \<Rightarrow> error + pyfloat" where
  "row_total r =
     (if length r \<le> 3 then Inl IndexError
      else (case r ! 3 of
              PStr t \<Rightarrow>
                (case float_of_str (str_replace_dollar t) of
                   None \<Rightarrow> Inl (ValueError ''could not convert string to float'')
                 | Some f \<Rightarrow> Inr f)
            | _ \<Rightarrow> Inl AttributeError))"

fun row_totals :: "row list \<Rightarrow> error + pyfloat list" where
  "row_totals [] = Inr []"
| "row_totals (r # rs) =
     (case row_total r of
        Inl e \<Rightarrow> Inl e
      | Inr t \<Rightarrow> (case row_totals rs of Inl e \<Rightarrow> Inl e | Inr ts \<Rightarrow> Inr (t # ts)))"

text \<open>The literal \<^verbatim>\<open>0.16\<close>.\<close>

definition iva_rate :: pyfloat where
  "iva_rate = round_double (16 / 100)"

definition totals_block :: "int \<Rightarrow> pyfloat \<Rightarrow> draw list" where
  "totals_block subtotal_y_position subtotal =
     (let iva = float_mul subtotal iva_rate;
          iva_y_position = subtotal_y_position - 20;
          total_y_position = iva_y_position - 20
      in [SetFont ''Helvetica-Bold'' 12,
          DrawString 400 subtotal_y_position ''Subtotal:'',
          SetFont ''Helvetica'' 12,
          DrawString 500 subtotal_y_position (CHR ''$'' # format_2f subtotal),
          SetFont ''Helvetica-Bold'' 12,
          DrawString 400 iva_y_position ''IVA:'',
          SetFont ''Helvetica'' 12,
          DrawString 500 iva_y_position (CHR ''$'' # format_2f iva),
          SetFont ''Helvetica-Bold'' 12,
          DrawString 400 total_y_position ''Total:'',
          SetFont ''Helvetica'' 12,
          DrawString 500 total_y_position (CHR ''$'' # format_2f (float_add subtotal iva))])"

definition too_large :: error where
  "too_large =
     ValueError ''Table is too large to fit on one page. Consider splitting it into multiple pages.''"

text \<open>\<^verbatim>\<open>subtotal = sum(float(row[3].replace("$", "")) for row in table_data[1:])\<close>\<close>

definition table_subtotal :: "row list \<Rightarrow> error + pyfloat" where
  "table_subtotal table_data =
     (case row_totals (tl table_data) of Inl e \<Rightarrow> Inl e | Inr ts \<Rightarrow> Inr (py_sum ts))"

text \<open>From the table data to the finished canvas: the height check, then the totals.\<close>

definition render_table :: "row list \<Rightarrow> error + draw list" where
  "render_table table_data =
     (let row_height = 20;
          table_height = int (length table_data) * row_height;
          table_y_position = title_y_position - 60
      in if table_y_position - table_height < 50 then Inl too_large
         else (case table_subtotal table_data of
                 Inl e \<Rightarrow> Inl e
               | Inr subtotal \<Rightarrow>
                   Inr (page_header
                        @ totals_block (table_y_position - 300 - table_height - 20) subtotal
                        @ [DrawTable 50 (table_y_position - 300) table_data])))"

definition not_json :: error where
  "not_json = ValueError ''matched_products is not a valid JSON string''"

text \<open>The first lines of the function: a string is stripped and decoded.\<close>

definition decode_matched :: "pyval \<Rightarrow> error + pyval" where
  "decode_matched matched_products =
     (case matched_products of
        PStr s \<Rightarrow>
          (case json_loads (str_strip s ''```json'') of
             None \<Rightarrow> Inl not_json
           | Some v \<Rightarrow> Inr v)
      | _ \<Rightarrow> Inr matched_products)"

definition invoice_canvas :: "pyval \<Rightarrow> error + draw list" where
  "invoice_canvas matched_products =
     (case decode_matched matched_products of
        Inl e \<Rightarrow> Inl e
      | Inr v \<Rightarrow>
          (case v of
             PDict d \<Rightarrow>
               (case py_iter (dict_get d ''productos'' (PList [])) of
                  Inl e \<Rightarrow> Inl e
                | Inr productos \<Rightarrow>
                    (case table_rows productos of
                       Inl e \<Rightarrow> Inl e
                     | Inr rows \<Rightarrow> render_table (table_header # rows)))
           | _ \<Rightarrow> Inl AttributeError))"

text \<open>
  \<^verbatim>\<open>generate_invoice_pdf(matched_products, output_file)\<close>: the exception raised, if any,
  and the files afterwards.
\<close>

definition generate_invoice_pdf :: "pyval \<Rightarrow> string \<Rightarrow> files \<Rightarrow> error option \<times> files" where
  "generate_invoice_pdf matched_products output_file fs =
     (case invoice_canvas matched_products of
        Inl e \<Rightarrow> (Some e, fs)
      | Inr c \<Rightarrow> (None, fs(output_file \<mapsto> c)))"

section \<open>The orchestrator (\<^verbatim>\<open>email_processing.py\<close>, \<^verbatim>\<open>app.py\<close>)\<close>

text \<open>
  The collaborators (mailbox, text-understanding service, catalog file, mail sender,
  clock) are given by what their calls return or raise in one polling cycle.
  \<^verbatim>\<open>connect_to_email\<close> and \<^verbatim>\<open>fetch_emails\<close> catch every exception themselves and return
  \<^verbatim>\<open>None\<close> and the empty list.
\<close>

record email_message =
  sender_name :: string
  sender_address :: string
  body :: string

datatype fetched = Tuple email_message | Other

record world =
  connect_ok :: bool
  inbox :: "fetched list list"
  openai_extract :: "string \<Rightarrow> error + string"
  openai_names :: "string \<Rightarrow> error + string"
  csv_outcome :: "error + string"
  openai_match :: "string \<Rightarrow> string \<Rightarrow> error + string"
  smtp_outcome :: "error option"
  sleep_outcome :: "error option"

datatype event =
    Extracted string
  | Named string
  | Matched string string
  | Invoiced string
  | Sent string string

record state =
  files :: files
  log :: "event list"

text \<open>
  \<^verbatim>\<open>read_csv_columns\<close>: whatever goes wrong while the file is read is caught, reported on
  the console, and the empty string is returned.
\<close>

definition read_csv_columns :: "world \<Rightarrow> string" where
  "read_csv_columns w = (case csv_outcome w of Inl e \<Rightarrow> [] | Inr s \<Rightarrow> s)"

text \<open>The body of the inner loop of \<^verbatim>\<open>process_emails\<close>, for one fetched message.\<close>

definition process_message :: "world \<Rightarrow> email_message \<Rightarrow> state \<Rightarrow> error option \<times> state" where
  "process_message w m st =
     (case openai_extract w (body m) of
        Inl e \<Rightarrow> (Some e, st)
      | Inr json_products \<Rightarrow>
          (let st1 = st\<lparr>log := log st @ [Extracted (body m)]\<rparr>
           in case openai_names w json_products of
                Inl e \<Rightarrow> (Some e, st1)
              | Inr product_names \<Rightarrow>
                  (let st2 = st1\<lparr>log := log st1 @ [Named json_products]\<rparr>;
                       products_json_string = read_csv_columns w
                   in case openai_match w json_products products_json_string of
                        Inl e \<Rightarrow> (Some e, st2)
                      | Inr matched_products \<Rightarrow>
                          (let st3 = st2\<lparr>log := log st2 @ [Matched json_products products_json_string]\<rparr>
                           in case generate_invoice_pdf (PStr matched_products) ''invoice.pdf'' (files st3) of
                                (Some e, fs) \<Rightarrow> (Some e, st3\<lparr>files := fs\<rparr>)
                              | (None, fs) \<Rightarrow>
                                  (let st4 = st3\<lparr>files := fs, log := log st3 @ [Invoiced ''invoice.pdf'']\<rparr>
                                   in case smtp_outcome w of
                                        Some e \<Rightarrow> (Some e, st4)
                                      | None \<Rightarrow>
                                          (None, st4\<lparr>log := log st4 @ [Sent (sender_address m) ''invoice.pdf'']\<rparr>))))))"

fun process_parts :: "world \<Rightarrow> fetched list \<Rightarrow> state \<Rightarrow> error option \<times> state" where
  "process_parts w [] st = (None, st)"
| "process_parts w (Other # rest) st = process_parts w rest st"
| "process_parts w (Tuple m # rest) st =
     (case process_message w m st of
        (Some e, st') \<Rightarrow> (Some e, st')
      | (None, st') \<Rightarrow> process_parts w rest st')"

definition process_emails :: "world \<Rightarrow> state \<Rightarrow> error option \<times> state" where
  "process_emails w st =
     (if \<not> connect_ok w then (None, st)
      else (case inbox w of
              [] \<Rightarrow> (None, st)
            | msg # others \<Rightarrow> process_parts w msg st))"

text \<open>
  \<^verbatim>\<open>main\<close>: \<^verbatim>\<open>while True: process_emails(); time.sleep(CHECKING_INTERVAL)\<close>, run over the
  successive polling cycles given.  The result is the exception that ended the loop, if
  any, the number of cycles whose \<^verbatim>\<open>process_emails\<close> call was started, and the state.
\<close>

fun main_loop :: "world list \<Rightarrow> nat \<Rightarrow> state \<Rightarrow> error option \<times> nat \<times> state" where
  "main_loop [] k st = (None, k, st)"
| "main_loop (w # ws) k st =
     (case process_emails w st of
        (Some e, st') \<Rightarrow> (Some e, Suc k, st')
      | (None, st') \<Rightarrow>
          (case sleep_outcome w of
             Some e \<Rightarrow> (Some e, Suc k, st')
           | None \<Rightarrow> main_loop ws (Suc k) st'))"

section \<open>The pricing rules as the specification words them\<close>

text \<open>
  The specification's rounding law, over exact decimals: a line total is the product
  rounded to two places, the subtotal is the sum of the products at full precision.
\<close>

definition spec_line_total :: "int \<Rightarrow> rat \<Rightarrow> rat" where
  "spec_line_total q c = of_int (round_half_even (of_int q * c * 100)) / 100"

definition spec_subtotal :: "(int \<times> rat) list \<Rightarrow> rat" where
  "spec_subtotal ls = sum_list (map (\<lambda>(q, c). of_int q * c) ls)"

section \<open>Inputs used below\<close>

definition product :: "string \<Rightarrow> string \<Rightarrow> string \<Rightarrow> pyval" where
  "product nombre cantidad costo =
     PDict [(''nombre'', PStr nombre), (''cantidad'', PStr cantidad), (''costo'', PStr costo)]"

text \<open>The matched products of the repository's tests.\<close>

definition sample_order :: pyval where
  "sample_order =
     PDict [(''productos'',
       PList [product ''LAPTOP HP'' ''5'' ''$800.00'',
              product ''IMPRESORA EPSON'' ''3'' ''$200.00'',
              product ''MONITOR DELL'' ''2'' ''$300.00''])]"

text \<open>Responses of the text-understanding service.\<close>

definition dq :: string where
  "dq = [CHR 0x22]"

definition prose_response :: string where
  "prose_response = ''This is not a valid JSON string''"


definition empty_order_response :: string where
  "empty_order_response = ''{'' @ dq @ ''productos'' @ dq @ '': []}''"

text \<open>Polling cycles: one whose matching response is prose, one whose catalog is missing.\<close>

definition john :: email_message where
  "john = \<lparr>sender_name = ''John Doe'', sender_address = ''john@example.com'',
           body = ''5 laptops HP''\<rparr>"

definition failing_world :: world where
  "failing_world =
     \<lparr>connect_ok = True, inbox = [[Tuple john, Other]],
      openai_extract = (\<lambda>b. Inr empty_order_response),
      openai_names = (\<lambda>j. Inr []),
      csv_outcome = Inr ''[]'',
      openai_match = (\<lambda>j p. Inr prose_response),
      smtp_outcome = None, sleep_outcome = None\<rparr>"

definition no_catalog_world :: world where
  "no_catalog_world =
     \<lparr>connect_ok = True, inbox = [[Tuple john, Other]],
      openai_extract = (\<lambda>b. Inr empty_order_response),
      openai_names = (\<lambda>j. Inr []),
      csv_outcome = Inl (OtherError ''FileNotFoundError''),
      openai_match = (\<lambda>j p. Inr empty_order_response),
      smtp_outcome = None, sleep_outcome = None\<rparr>"

section \<open>Evaluating the pricing of single lines\<close>

lemma float_of_int_0: "float_of_int 0 = Inr (Fin 0)"
  by (simp add: float_of_int_def round_double_def)


lemma format_2f_0: "format_2f (Fin 0) = ''0.00''"
  by code_simp





lemma sample_order_canvas:
  "invoice_canvas sample_order =
     Inr (page_header @
       [SetFont ''Helvetica-Bold'' 12, DrawString 400 282 ''Subtotal:'',
        SetFont ''Helvetica'' 12, DrawString 500 282 ''$5200.00'',
        SetFont ''Helvetica-Bold'' 12, DrawString 400 262 ''IVA:'',
        SetFont ''Helvetica'' 12, DrawString 500 262 ''$832.00'',
        SetFont ''Helvetica-Bold'' 12, DrawString 400 242 ''Total:'',
        SetFont ''Helvetica'' 12, DrawString 500 242 ''$6032.00'',
        DrawTable 50 382
          [table_header,
           [PStr ''LAPTOP HP'', PInt 5, PStr ''$800.00'', PStr ''$4000.00''],
           [PStr ''IMPRESORA EPSON'', PInt 3, PStr ''$200.00'', PStr ''$600.00''],
           [PStr ''MONITOR DELL'', PInt 2, PStr ''$300.00'', PStr ''$600.00'']]])"
  by code_simp

lemma sample_order_tax: "float_mul (Fin 5200) iva_rate = Fin 832"
  by code_simp

lemma sample_order_total: "float_add (Fin 5200) (Fin 832) = Fin 6032"
  by code_simp

section \<open>C1: the end-to-end example\<close>

text \<open>
  C1.  For the three priced items of the example (LAPTOP HP, 5 at 800.00; IMPRESORA
  EPSON, 3 at 200.00; MONITOR DELL, 2 at 300.00) the invoice is written with exactly
  three table rows, whose line totals are 4000.00, 600.00 and 600.00 in that order, with
  the subtotal 5200.00, the tax 832.00, which is the subtotal times the rate 0.16, and
  the grand total 6032.00, which is the subtotal plus the tax.
\<close>

theorem C1_end_to_end_example:
  "generate_invoice_pdf sample_order out fs =
     (None, fs(out \<mapsto> page_header @
       [SetFont ''Helvetica-Bold'' 12, DrawString 400 282 ''Subtotal:'',
        SetFont ''Helvetica'' 12, DrawString 500 282 ''$5200.00'',
        SetFont ''Helvetica-Bold'' 12, DrawString 400 262 ''IVA:'',
        SetFont ''Helvetica'' 12, DrawString 500 262 ''$832.00'',
        SetFont ''Helvetica-Bold'' 12, DrawString 400 242 ''Total:'',
        SetFont ''Helvetica'' 12, DrawString 500 242 ''$6032.00'',
        DrawTable 50 382
          [table_header,
           [PStr ''LAPTOP HP'', PInt 5, PStr ''$800.00'', PStr ''$4000.00''],
           [PStr ''IMPRESORA EPSON'', PInt 3, PStr ''$200.00'', PStr ''$600.00''],
           [PStr ''MONITOR DELL'', PInt 2, PStr ''$300.00'', PStr ''$600.00'']]]))
   \<and> float_mul (Fin 5200) iva_rate = Fin 832
   \<and> float_add (Fin 5200) (Fin 832) = Fin 6032"
  by (simp add: generate_invoice_pdf_def sample_order_canvas sample_order_tax sample_order_total)

section \<open>C7: defensive coercion\<close>


section \<open>C8: an absent quantity\<close>

lemma monitor_cost: "coerce_costo (str_replace_dollar ''$300.00'') = Fin 300"
  by code_simp

lemma format_2f_300: "format_2f (Fin 300) = ''300.00''"
  by code_simp

lemma laptop_without_quantity:
  "product_row (PDict [(''nombre'', PStr ''LAPTOP HP''), (''costo'', PStr ''$800.00'')])
     = Inr [PStr ''LAPTOP HP'', PInt 0, PStr ''$800.00'', PStr ''$0.00'']"
  by code_simp

text \<open>
  C8, as stated, fails: an item without a quantity field is not priced with the
  quantity 1.  The item LAPTOP HP at $800.00 without a quantity gives a row with the
  quantity 0 and the line total $0.00, not the quantity 1 and the line total $800.00.
\<close>

theorem C8_absent_quantity_counterexample:
  "product_row (PDict [(''nombre'', PStr ''LAPTOP HP''), (''costo'', PStr ''$800.00'')])
     = Inr [PStr ''LAPTOP HP'', PInt 0, PStr ''$800.00'', PStr ''$0.00'']
   \<and> product_row (PDict [(''nombre'', PStr ''LAPTOP HP''), (''costo'', PStr ''$800.00'')])
     \<noteq> Inr [PStr ''LAPTOP HP'', PInt 1, PStr ''$800.00'', PStr ''$800.00'']"
  by (simp add: laptop_without_quantity)

text \<open>
  C8, amended.  For every item whose quantity field is absent from the record and whose
  cost field is absent or a string, the quantity is the default 0 of the lookup: the row
  shows the quantity 0, and its line total is the product of 0 and the unit cost, which
  prints as $0.00 for every finite cost that is not negative.
\<close>

theorem C8_absent_quantity_is_zero:
  assumes "map_of d ''cantidad'' = None"
    and "dict_get d ''costo'' (PStr ''0'') = PStr c"
  shows "product_row (PDict d)
           = Inr [dict_get d ''nombre'' (PStr []), PInt 0,
                  PStr (CHR ''$'' # format_2f (coerce_costo (str_replace_dollar c))),
                  PStr (CHR ''$'' # format_2f (float_mul (Fin 0) (coerce_costo (str_replace_dollar c))))]
         \<and> format_2f (float_mul (Fin 0) (Fin \<bar>r\<bar>)) = ''0.00''"
proof -
  have "dict_get d ''cantidad'' (PInt 0) = PInt 0"
    using assms(1) by (simp add: dict_get_def)
  then have "product_row (PDict d)
           = Inr [dict_get d ''nombre'' (PStr []), PInt 0,
                  PStr (CHR ''$'' # format_2f (coerce_costo (str_replace_dollar c))),
                  PStr (CHR ''$'' # format_2f (float_mul (Fin 0) (coerce_costo (str_replace_dollar c))))]"
    using assms(2) by (simp add: product_row_def coerce_cantidad_def float_of_int_0 Let_def)
  moreover have "float_mul (Fin 0) (Fin \<bar>r\<bar>) = Fin 0"
    by (simp add: float_mul_def)
  ultimately show ?thesis
    by (simp add: format_2f_0)
qed

theorem C8_absent_quantity_is_zero_witness:
  "product_row (PDict [(''nombre'', PStr ''MONITOR DELL''), (''costo'', PStr ''$300.00'')])
     = Inr [PStr ''MONITOR DELL'', PInt 0, PStr ''$300.00'', PStr ''$0.00'']"
proof -
  have a: "map_of [(''nombre'', PStr ''MONITOR DELL''), (''costo'', PStr ''$300.00'')] ''cantidad'' = None"
    by simp
  have b: "dict_get [(''nombre'', PStr ''MONITOR DELL''), (''costo'', PStr ''$300.00'')] ''costo'' (PStr ''0'')
             = PStr ''$300.00''"
    by (simp add: dict_get_def)
  have c: "float_mul (Fin 0) (Fin 300) = Fin 0"
    by (simp add: float_mul_def)
  show ?thesis
    using C8_absent_quantity_is_zero [OF a b, of 0]
    by (simp add: dict_get_def monitor_cost format_2f_300 format_2f_0 c)
qed

section \<open>C3: responses that are rejected\<close>






end
